theory Spec2Isabelle
  imports Complex_Main "HOL-Library.Log_Nat"
begin

section \<open>JavaScript numbers\<close>

text \<open>
  A JavaScript Number is a binary64 value: a finite value, one of the two infinities,
  or NaN. A finite value is held as the rational it stands for. Every operation
  computes its exact result and rounds it to the nearest binary64 value, a tie going
  to the even significand, and a result beyond the largest finite value going to an
  infinity (\<open>double_of\<close>). The sign of zero is not modelled.
\<close>

datatype jsnum = Fin rat | PInf | NInf | NaN

text \<open>Powers of two with a whole exponent of either sign.\<close>

definition pow2 :: "int \<Rightarrow> rat" where
  "pow2 e = (if 0 \<le> e then of_int (2 ^ nat e) else 1 / of_int (2 ^ nat (- e)))"

text \<open>
  The whole number nearest to \<open>n / d\<close>, a tie going to the even one, for \<open>n\<close> not
  negative and \<open>d\<close> positive.
\<close>

definition round_div_even :: "int \<Rightarrow> int \<Rightarrow> int" where
  "round_div_even n d =
     (let f = n div d; r2 = 2 * (n mod d)
      in if r2 < d then f else if d < r2 then f + 1 else if even f then f else f + 1)"

text \<open>
  The exponent \<open>e\<close> with \<open>2 ^ e \<le> n / d < 2 ^ (e + 1)\<close>, for \<open>n\<close> and \<open>d\<close> positive:
  the difference of the bit lengths, or one less.
\<close>

definition floor_log2 :: "int \<Rightarrow> int \<Rightarrow> int" where
  "floor_log2 n d =
     (let e0 = bitlen n - bitlen d
      in if (if 0 \<le> e0 then d * 2 ^ nat e0 \<le> n else d \<le> n * 2 ^ nat (- e0))
         then e0 else e0 - 1)"

text \<open>
  The binary64 value nearest to a rational. The significand has 53 bits, so a value
  with exponent \<open>e\<close> is a multiple of \<open>2 ^ (e - 52)\<close>; the exponent is not below
  -1022 (below that the values are the subnormal ones, multiples of \<open>2 ^ - 1074\<close>);
  a rounded magnitude of \<open>2 ^ 1024\<close> or more is an infinity.
\<close>

definition double_of :: "rat \<Rightarrow> jsnum" where
  "double_of q =
     (let n = \<bar>fst (quotient_of q)\<bar>; d = snd (quotient_of q)
      in if n = 0 then Fin 0
         else (let k = max (floor_log2 n d) (- 1022) - 52;
                   m = (if 0 \<le> k then round_div_even n (d * 2 ^ nat k)
                        else round_div_even (n * 2 ^ nat (- k)) d)
               in if 0 \<le> k \<and> 2 ^ 1024 \<le> m * 2 ^ nat k
                  then (if q < 0 then NInf else PInf)
                  else Fin ((if q < 0 then - 1 else 1) * of_int m * pow2 k)))"

definition isFinite :: "jsnum \<Rightarrow> bool" where
  "isFinite n = (case n of Fin _ \<Rightarrow> True | _ \<Rightarrow> False)"

definition isNaN :: "jsnum \<Rightarrow> bool" where
  "isNaN n = (case n of NaN \<Rightarrow> True | _ \<Rightarrow> False)"

text \<open>\<open>a + b\<close> on numbers.\<close>

definition js_add :: "jsnum \<Rightarrow> jsnum \<Rightarrow> jsnum" where
  "js_add a b =
     (case a of
        NaN \<Rightarrow> NaN
      | Fin x \<Rightarrow> (case b of Fin y \<Rightarrow> double_of (x + y) | other \<Rightarrow> other)
      | PInf \<Rightarrow> (case b of NaN \<Rightarrow> NaN | NInf \<Rightarrow> NaN | _ \<Rightarrow> PInf)
      | NInf \<Rightarrow> (case b of NaN \<Rightarrow> NaN | PInf \<Rightarrow> NaN | _ \<Rightarrow> NInf))"

text \<open>The sign of a number that is not NaN: -1, 0 or 1.\<close>

definition js_sign :: "jsnum \<Rightarrow> int" where
  "js_sign a =
     (case a of
        Fin x \<Rightarrow> (if x < 0 then - 1 else if x = 0 then 0 else 1)
      | PInf \<Rightarrow> 1
      | NInf \<Rightarrow> - 1
      | NaN \<Rightarrow> 0)"

definition signed_inf :: "int \<Rightarrow> jsnum" where
  "signed_inf s = (if s < 0 then NInf else if s = 0 then NaN else PInf)"

text \<open>\<open>a * b\<close> on numbers: an infinity times zero is NaN.\<close>

definition js_mul :: "jsnum \<Rightarrow> jsnum \<Rightarrow> jsnum" where
  "js_mul a b =
     (case (a, b) of
        (NaN, _) \<Rightarrow> NaN
      | (_, NaN) \<Rightarrow> NaN
      | (Fin x, Fin y) \<Rightarrow> double_of (x * y)
      | _ \<Rightarrow> signed_inf (js_sign a * js_sign b))"

text \<open>
  \<open>a / b\<close> on numbers. A finite non-zero number over zero is an infinity with the
  sign of the dividend (the zero is taken as positive), zero over zero is NaN.
\<close>

definition js_div :: "jsnum \<Rightarrow> jsnum \<Rightarrow> jsnum" where
  "js_div a b =
     (case (a, b) of
        (NaN, _) \<Rightarrow> NaN
      | (_, NaN) \<Rightarrow> NaN
      | (Fin x, Fin y) \<Rightarrow> (if y = 0 then signed_inf (js_sign a) else double_of (x / y))
      | (Fin x, _) \<Rightarrow> Fin 0
      | (_, Fin y) \<Rightarrow> signed_inf (js_sign a * (if y < 0 then - 1 else 1))
      | _ \<Rightarrow> NaN)"

text \<open>\<open>a < b\<close> and \<open>a >= b\<close> on numbers: every comparison with NaN is false.\<close>

definition js_lt :: "jsnum \<Rightarrow> jsnum \<Rightarrow> bool" where
  "js_lt a b =
     (case (a, b) of
        (NaN, _) \<Rightarrow> False
      | (_, NaN) \<Rightarrow> False
      | (Fin x, Fin y) \<Rightarrow> x < y
      | (NInf, NInf) \<Rightarrow> False
      | (NInf, _) \<Rightarrow> True
      | (_, PInf) \<Rightarrow> (case a of PInf \<Rightarrow> False | _ \<Rightarrow> True)
      | _ \<Rightarrow> False)"

definition js_ge :: "jsnum \<Rightarrow> jsnum \<Rightarrow> bool" where
  "js_ge a b = (\<not> isNaN a \<and> \<not> isNaN b \<and> \<not> js_lt a b)"

text \<open>\<open>a === b\<close> on numbers: NaN equals nothing.\<close>

definition js_eq :: "jsnum \<Rightarrow> jsnum \<Rightarrow> bool" where
  "js_eq a b = (\<not> isNaN a \<and> a = b)"

text \<open>
  \<open>Math.round\<close>: the integer nearest to the argument, a tie going to the larger
  integer (towards plus infinity). The result is exact: a binary64 value of magnitude
  \<open>2 ^ 52\<close> or more is an integer already, and the integers below are binary64 values.
\<close>

definition Math_round :: "jsnum \<Rightarrow> jsnum" where
  "Math_round a = (case a of Fin x \<Rightarrow> Fin (of_int \<lfloor>x + 1 / 2\<rfloor>) | other \<Rightarrow> other)"

section \<open>JavaScript values and conversions\<close>

text \<open>
  The values a field of a parsed JSON request body holds, and \<open>undefined\<close> for a
  field that is not there. Arrays and objects as field values are not modelled: their
  conversion to a number goes through their string form. A string is the list of its
  code units, each below 256.
\<close>

datatype jsval = JUndefined | JNull | JBool bool | JNum jsnum | JStr string

text \<open>The truth value of a value in a condition (\<open>ToBoolean\<close>).\<close>

definition truthy :: "jsval \<Rightarrow> bool" where
  "truthy v =
     (case v of
        JUndefined \<Rightarrow> False
      | JNull \<Rightarrow> False
      | JBool b \<Rightarrow> b
      | JNum n \<Rightarrow> (case n of Fin x \<Rightarrow> x \<noteq> 0 | NaN \<Rightarrow> False | _ \<Rightarrow> True)
      | JStr s \<Rightarrow> s \<noteq> [])"

text \<open>\<open>a ?? b\<close>.\<close>

definition nullish :: "jsval \<Rightarrow> jsval \<Rightarrow> jsval" where
  "nullish a b = (case a of JUndefined \<Rightarrow> b | JNull \<Rightarrow> b | _ \<Rightarrow> a)"

subsection \<open>Strings\<close>

text \<open>
  White space and line ends, as \<open>trim\<close> and \<open>Number\<close> strip them: tab, line feed,
  vertical tab, form feed, carriage return, space and no-break space are the ones
  below 256.
\<close>

definition is_ws :: "char \<Rightarrow> bool" where
  "is_ws c =
     (c \<in> set [CHR 0x09, CHR 0x0A, CHR 0x0B, CHR 0x0C, CHR 0x0D, CHR 0x20, CHR 0xA0])"

text \<open>\<open>String.prototype.trim\<close> and the trimming of the start alone.\<close>

definition trimStart :: "string \<Rightarrow> string" where
  "trimStart s = dropWhile is_ws s"

definition trim :: "string \<Rightarrow> string" where
  "trim s = rev (dropWhile is_ws (rev (dropWhile is_ws s)))"

text \<open>\<open>s.includes(c)\<close> for a one-character needle.\<close>

definition str_includes :: "string \<Rightarrow> char \<Rightarrow> bool" where
  "str_includes s c = (c \<in> set s)"

text \<open>\<open>s.split(c)\<close> for a one-character separator.\<close>

fun split_on :: "char \<Rightarrow> string \<Rightarrow> string list" where
  "split_on c [] = [[]]"
| "split_on c (x # xs) =
     (if x = c then [] # split_on c xs
      else (case split_on c xs of [] \<Rightarrow> [[x]] | p # ps \<Rightarrow> (x # p) # ps))"

definition is_digit :: "char \<Rightarrow> bool" where
  "is_digit c = (c \<in> set ''0123456789'')"

definition digit_val :: "char \<Rightarrow> int" where
  "digit_val c =
     (if is_digit c then of_char c - 48
      else if c \<in> set ''abcdef'' then of_char c - 87
      else if c \<in> set ''ABCDEF'' then of_char c - 55
      else 0)"

definition radix_val :: "int \<Rightarrow> string \<Rightarrow> int" where
  "radix_val r ds = foldl (\<lambda>acc c. r * acc + digit_val c) 0 ds"

definition pow10 :: "int \<Rightarrow> rat" where
  "pow10 e = (if 0 \<le> e then of_int (10 ^ nat e) else 1 / of_int (10 ^ nat (- e)))"

subsection \<open>String to number\<close>

text \<open>
  The exponent part at the head of a string (\<open>e\<close> or \<open>E\<close>, an optional sign, at least
  one digit): its value and the rest of the string. A head that is no exponent part
  is left in place with the exponent 0.
\<close>

definition scan_exponent :: "string \<Rightarrow> int \<times> string" where
  "scan_exponent s =
     (case s of
        [] \<Rightarrow> (0, s)
      | c # r \<Rightarrow>
          if c = CHR ''e'' \<or> c = CHR ''E'' then
            (let sg = (case r of [] \<Rightarrow> (1, r)
                        | d # r2 \<Rightarrow> if d = CHR ''+'' then (1, r2)
                                   else if d = CHR ''-'' then (- 1, r2) else (1, r));
                 ds = takeWhile is_digit (snd sg)
             in if ds = [] then (0, s)
                else (fst sg * radix_val 10 ds, dropWhile is_digit (snd sg)))
          else (0, s))"

text \<open>
  The longest unsigned decimal literal at the head of a string (digits, an optional
  point with optional digits, an optional exponent; or a point with digits), with its
  exact value and the rest of the string.
\<close>

definition scan_unsigned_decimal :: "string \<Rightarrow> (rat \<times> string) option" where
  "scan_unsigned_decimal s =
     (let ip = takeWhile is_digit s;
          r1 = dropWhile is_digit s;
          fr = (case r1 of [] \<Rightarrow> ([], r1)
                 | c # r \<Rightarrow> if c = CHR ''.'' then (takeWhile is_digit r, dropWhile is_digit r)
                            else ([], r1))
      in if ip = [] \<and> fst fr = [] then None
         else (let ex = scan_exponent (snd fr);
                   mant = of_int (radix_val 10 ip)
                          + of_int (radix_val 10 (fst fr)) / of_int (10 ^ length (fst fr))
               in Some (mant * pow10 (fst ex), snd ex)))"

text \<open>
  The same with an optional sign in front, and with \<open>Infinity\<close>: the Number is the
  binary64 value nearest to the exact value of the literal.
\<close>

definition scan_str_decimal :: "string \<Rightarrow> (jsnum \<times> string) option" where
  "scan_str_decimal s =
     (let sg = (case s of [] \<Rightarrow> (False, s)
                 | c # t \<Rightarrow> if c = CHR ''+'' then (False, t)
                            else if c = CHR ''-'' then (True, t) else (False, s))
      in if take 8 (snd sg) = ''Infinity''
         then Some (if fst sg then NInf else PInf, drop 8 (snd sg))
         else (case scan_unsigned_decimal (snd sg) of
                 None \<Rightarrow> None
               | Some (q, rest) \<Rightarrow> Some (double_of (if fst sg then - q else q), rest)))"

text \<open>A whole string as a hexadecimal, octal or binary integer literal.\<close>

definition scan_radix :: "string \<Rightarrow> jsnum option" where
  "scan_radix s =
     (case s of
        c0 # c1 # ds \<Rightarrow>
          if c0 = CHR ''0'' \<and> ds \<noteq> [] then
            (if (c1 = CHR ''x'' \<or> c1 = CHR ''X'')
                \<and> list_all (\<lambda>c. c \<in> set ''0123456789abcdefABCDEF'') ds
             then Some (double_of (of_int (radix_val 16 ds)))
             else if (c1 = CHR ''o'' \<or> c1 = CHR ''O'') \<and> list_all (\<lambda>c. c \<in> set ''01234567'') ds
             then Some (double_of (of_int (radix_val 8 ds)))
             else if (c1 = CHR ''b'' \<or> c1 = CHR ''B'') \<and> list_all (\<lambda>c. c \<in> set ''01'') ds
             then Some (double_of (of_int (radix_val 2 ds)))
             else None)
          else None
      | _ \<Rightarrow> None)"

text \<open>
  \<open>Number(s)\<close> for a string: the empty string (after trimming) is 0, a string that
  is a numeric literal as a whole is its value, every other string is NaN.
\<close>

definition StringToNumber :: "string \<Rightarrow> jsnum" where
  "StringToNumber s =
     (let t = trim s
      in if t = [] then Fin 0
         else (case scan_radix t of
                 Some n \<Rightarrow> n
               | None \<Rightarrow>
                   (case scan_str_decimal t of
                      Some (n, rest) \<Rightarrow> if rest = [] then n else NaN
                    | None \<Rightarrow> NaN)))"

text \<open>\<open>Number(v)\<close>.\<close>

definition Number :: "jsval \<Rightarrow> jsnum" where
  "Number v =
     (case v of
        JUndefined \<Rightarrow> NaN
      | JNull \<Rightarrow> Fin 0
      | JBool b \<Rightarrow> Fin (if b then 1 else 0)
      | JNum n \<Rightarrow> n
      | JStr s \<Rightarrow> StringToNumber s)"

text \<open>
  \<open>parseFloat(v)\<close>: the value of the longest decimal literal at the head of the
  string form of the argument, NaN when there is none. The string form of a number
  reads back as that number; \<open>undefined\<close>, \<open>null\<close>, \<open>true\<close> and \<open>false\<close> have no digits.
\<close>

definition parseFloat :: "jsval \<Rightarrow> jsnum" where
  "parseFloat v =
     (case v of
        JStr s \<Rightarrow> (case scan_str_decimal (trimStart s) of Some (n, _) \<Rightarrow> n | None \<Rightarrow> NaN)
      | JNum n \<Rightarrow> n
      | _ \<Rightarrow> NaN)"

section \<open>Rounding and the hours parser\<close>

text \<open>\<open>toNumber\<close> of \<^verbatim>\<open>server.js\<close>: the number a value converts to, or the fallback.\<close>

definition toNumber :: "jsval \<Rightarrow> jsval \<Rightarrow> jsval" where
  "toNumber v fallback = (let num = Number v in if isFinite num then JNum num else fallback)"

text \<open>
  \<open>round2\<close> of both files: \<open>Math.round(Number(value || 0) * 100) / 100\<close>.
\<close>

definition round2 :: "jsval \<Rightarrow> jsnum" where
  "round2 v =
     js_div (Math_round (js_mul (Number (if truthy v then v else JNum (Fin 0))) (Fin 100)))
       (Fin 100)"

text \<open>\<open>parseNumber\<close> of \<^verbatim>\<open>app.js\<close>; \<open>None\<close> is \<open>null\<close>.\<close>

definition parseNumber :: "jsval \<Rightarrow> jsnum option" where
  "parseNumber v = (let num = parseFloat v in if isFinite num then Some num else None)"

text \<open>
  The branch both hours parsers share for a trimmed string with a colon: the first two
  of the parts between colons, each converted by \<open>Number\<close>.
\<close>

definition colon_hours :: "string \<Rightarrow> jsnum option" where
  "colon_hours trimmed =
     (case map (\<lambda>p. Number (JStr p)) (split_on CHR '':'' trimmed) of
        h # m # _ \<Rightarrow>
          if isFinite h \<and> isFinite m \<and> js_ge h (Fin 0) \<and> js_ge m (Fin 0) \<and> js_lt m (Fin 60)
          then Some (round2 (JNum (js_add h (js_div m (Fin 60)))))
          else None
      | _ \<Rightarrow> None)"

text \<open>\<open>parseHoursInput\<close> of \<^verbatim>\<open>server.js\<close>; \<open>None\<close> is \<open>null\<close>.\<close>

definition parseHoursInput :: "jsval \<Rightarrow> jsnum option" where
  "parseHoursInput v =
     (case v of
        JStr s \<Rightarrow>
          (let trimmed = trim s
           in if str_includes trimmed CHR '':'' then colon_hours trimmed
              else Some (round2 (toNumber (JStr trimmed) (JNum (Fin 0)))))
      | _ \<Rightarrow> Some (round2 (toNumber v (JNum (Fin 0)))))"

text \<open>\<open>parseHours\<close> of \<^verbatim>\<open>app.js\<close>; \<open>None\<close> is \<open>null\<close>.\<close>

definition parseHours :: "jsval \<Rightarrow> jsnum option" where
  "parseHours v =
     (case v of
        JStr s \<Rightarrow>
          (let trimmed = trim s
           in if str_includes trimmed CHR '':'' then colon_hours trimmed
              else (case parseNumber (JStr trimmed) of
                      None \<Rightarrow> None
                    | Some num \<Rightarrow> Some (round2 (JNum num))))
      | _ \<Rightarrow> (case parseNumber v of None \<Rightarrow> None | Some num \<Rightarrow> Some (round2 (JNum num))))"

section \<open>Dates\<close>

text \<open>
  A \<open>Date\<close> object holds a time value: the milliseconds since 1970-01-01T00:00:00Z, or
  NaN for an invalid date (\<open>None\<close>). The getters and the constructor from year, month
  and day work in the local time of the host; \<open>toISOString\<close> works in UTC. The local
  time zone is a parameter \<open>tz\<close> of the model, the minutes local time is ahead of UTC
  (60 for UTC+01:00, -300 for UTC-05:00); daylight saving is not modelled, the offset
  is the same all year.
\<close>

type_synonym js_date = "int option"

datatype js_error = RangeError

definition msPerDay :: int where
  "msPerDay = 86400000"

text \<open>
  The day number (days since 1970-01-01) of a date of the proleptic Gregorian calendar,
  the month counted from 1, and the date of a day number.
\<close>

definition days_from_civil :: "int \<Rightarrow> int \<Rightarrow> int \<Rightarrow> int" where
  "days_from_civil y m d =
     (let y' = (if m \<le> 2 then y - 1 else y);
          era = y' div 400;
          yoe = y' - era * 400;
          doy = (153 * (if m > 2 then m - 3 else m + 9) + 2) div 5 + d - 1;
          doe = yoe * 365 + yoe div 4 - yoe div 100 + doy
      in era * 146097 + doe - 719468)"

definition civil_from_days :: "int \<Rightarrow> int \<times> int \<times> int" where
  "civil_from_days z =
     (let z' = z + 719468;
          era = z' div 146097;
          doe = z' - era * 146097;
          yoe = (doe - doe div 1460 + doe div 36524 - doe div 146096) div 365;
          doy = doe - (365 * yoe + yoe div 4 - yoe div 100);
          mp = (5 * doy + 2) div 153;
          d = doy - (153 * mp + 2) div 5 + 1;
          m = (if mp < 10 then mp + 3 else mp - 9)
      in (if m \<le> 2 then yoe + era * 400 + 1 else yoe + era * 400, m, d))"

definition TimeClip :: "int \<Rightarrow> js_date" where
  "TimeClip t = (if \<bar>t\<bar> > 8640000000000000 then None else Some t)"

text \<open>
  \<open>MakeDay(year, month, date)\<close>: the month is an index from 0 and may lie outside
  0..11, the date may lie outside the month.
\<close>

definition MakeDay :: "int \<Rightarrow> int \<Rightarrow> int \<Rightarrow> int" where
  "MakeDay year month dt = days_from_civil (year + month div 12) (month mod 12 + 1) 1 + dt - 1"

text \<open>\<open>new Date(year, monthIndex, day)\<close>: local midnight; a year from 0 to 99 is 1900 + year.\<close>

definition new_Date :: "int \<Rightarrow> int \<Rightarrow> int \<Rightarrow> int \<Rightarrow> js_date" where
  "new_Date tz year monthIndex day =
     TimeClip (MakeDay (if 0 \<le> year \<and> year \<le> 99 then 1900 + year else year) monthIndex day
                 * msPerDay - tz * 60000)"

text \<open>\<open>new Date(string)\<close>, for a parser \<open>dateParse\<close> of date strings (\<open>Date.parse\<close>).\<close>

definition new_Date_str :: "(string \<Rightarrow> int option) \<Rightarrow> string \<Rightarrow> js_date" where
  "new_Date_str dateParse s = (case dateParse s of None \<Rightarrow> None | Some t \<Rightarrow> TimeClip t)"

definition local_civil :: "int \<Rightarrow> int \<Rightarrow> int \<times> int \<times> int" where
  "local_civil tz t = civil_from_days ((t + tz * 60000) div msPerDay)"

definition getTime :: "js_date \<Rightarrow> jsnum" where
  "getTime d = (case d of None \<Rightarrow> NaN | Some t \<Rightarrow> Fin (of_int t))"

definition getFullYear :: "int \<Rightarrow> js_date \<Rightarrow> jsnum" where
  "getFullYear tz d = (case d of None \<Rightarrow> NaN | Some t \<Rightarrow> Fin (of_int (fst (local_civil tz t))))"

definition getMonth :: "int \<Rightarrow> js_date \<Rightarrow> jsnum" where
  "getMonth tz d =
     (case d of None \<Rightarrow> NaN | Some t \<Rightarrow> Fin (of_int (fst (snd (local_civil tz t)) - 1)))"

definition getDate :: "int \<Rightarrow> js_date \<Rightarrow> jsnum" where
  "getDate tz d = (case d of None \<Rightarrow> NaN | Some t \<Rightarrow> Fin (of_int (snd (snd (local_civil tz t)))))"

text \<open>\<open>getDay\<close>: the day of the week, 0 for Sunday; 1970-01-01 was a Thursday.\<close>

definition getDay :: "int \<Rightarrow> js_date \<Rightarrow> jsnum" where
  "getDay tz d =
     (case d of
        None \<Rightarrow> NaN
      | Some t \<Rightarrow> Fin (of_int (((t + tz * 60000) div msPerDay + 4) mod 7)))"

text \<open>The whole part of a number, the fraction cut off towards zero.\<close>

definition js_trunc :: "rat \<Rightarrow> int" where
  "js_trunc q = (if 0 \<le> q then \<lfloor>q\<rfloor> else - \<lfloor>- q\<rfloor>)"

text \<open>
  \<open>d.setDate(dt)\<close>: the local date with the day of the month replaced by the whole
  part of \<open>dt\<close>, the time of day kept; an invalid date stays invalid, and a \<open>dt\<close> that
  is not finite makes the date invalid.
\<close>

definition setDate :: "int \<Rightarrow> js_date \<Rightarrow> jsnum \<Rightarrow> js_date" where
  "setDate tz d dt =
     (case d of
        None \<Rightarrow> None
      | Some t \<Rightarrow>
          (case dt of
             Fin q \<Rightarrow>
               (let lt = t + tz * 60000;
                    ymd = civil_from_days (lt div msPerDay)
                in TimeClip (MakeDay (fst ymd) (fst (snd ymd) - 1) (js_trunc q) * msPerDay
                               + lt mod msPerDay - tz * 60000))
           | _ \<Rightarrow> None))"

subsection \<open>Decimal strings\<close>

text \<open>The character of a digit from 0 to 9.\<close>

definition digit_char :: "nat \<Rightarrow> char" where
  "digit_char n = ''0123456789'' ! n"

text \<open>The decimal digits of a whole number that is not negative.\<close>

function show_digits :: "int \<Rightarrow> string" where
  "show_digits n =
     (if n < 10 then [digit_char (nat n)]
      else show_digits (n div 10) @ [digit_char (nat (n mod 10))])"
  by pat_completeness auto
termination
  by (relation "measure nat") auto

declare show_digits.simps [simp del]

text \<open>The string form of a whole number, as a template literal inserts it.\<close>

definition show_int :: "int \<Rightarrow> string" where
  "show_int i = (if i < 0 then CHR ''-'' # show_digits (- i) else show_digits i)"

definition padStart :: "nat \<Rightarrow> char \<Rightarrow> string \<Rightarrow> string" where
  "padStart k c s = replicate (k - length s) c @ s"

text \<open>
  The first ten characters of \<open>toISOString()\<close> for a valid time value. The string is
  the UTC date and time; its year has four digits from 0 to 9999 and a sign and six
  digits otherwise. Only the part up to the \<open>T\<close> is built, which is never shorter than
  ten characters.
\<close>

definition iso_date10 :: "int \<Rightarrow> string" where
  "iso_date10 t =
     (let ymd = civil_from_days (t div msPerDay);
          y = fst ymd;
          ys = (if 0 \<le> y \<and> y \<le> 9999 then padStart 4 CHR ''0'' (show_digits y)
                else (if y < 0 then CHR ''-'' else CHR ''+'')
                     # padStart 6 CHR ''0'' (show_digits \<bar>y\<bar>))
      in take 10 (ys @ ''-'' @ padStart 2 CHR ''0'' (show_digits (fst (snd ymd)))
                    @ ''-'' @ padStart 2 CHR ''0'' (show_digits (snd (snd ymd)))
                    @ ''T''))"

text \<open>
  \<open>dateKey(date)\<close> of \<^verbatim>\<open>app.js\<close>, and the same expression in
  \<^verbatim>\<open>server.js\<close>: \<open>date.toISOString().slice(0, 10)\<close>. \<open>toISOString\<close> throws a
  \<open>RangeError\<close> on an invalid date.
\<close>

definition dateKey :: "js_date \<Rightarrow> js_error + string" where
  "dateKey d = (case d of None \<Rightarrow> Inl RangeError | Some t \<Rightarrow> Inr (iso_date10 t))"

section \<open>The holiday calendar\<close>

text \<open>The remainder operator \<open>%\<close> on whole numbers: the sign is the dividend's.\<close>

definition js_rem :: "int \<Rightarrow> int \<Rightarrow> int" where
  "js_rem a b = sgn a * (\<bar>a\<bar> mod \<bar>b\<bar>)"

text \<open>\<open>computeEaster(year)\<close> of \<^verbatim>\<open>app.js\<close>; \<open>Math.floor(x / n)\<close> is \<open>x div n\<close>.\<close>

definition computeEaster :: "int \<Rightarrow> int \<Rightarrow> js_date" where
  "computeEaster tz year =
     (let a = js_rem year 19;
          b = year div 100;
          c = js_rem year 100;
          d = b div 4;
          e = js_rem b 4;
          f = (b + 8) div 25;
          g = (b - f + 1) div 3;
          h = js_rem (19 * a + b - d - g + 15) 30;
          i = c div 4;
          k = js_rem c 4;
          l = js_rem (32 + 2 * e + 2 * i - h - k) 7;
          m = (a + 11 * h + 22 * l) div 451;
          month = (h + l - 7 * m + 114) div 31;
          day = js_rem (h + l - 7 * m + 114) 31 + 1
      in new_Date tz year (month - 1) day)"

text \<open>
  \<open>polishHolidays(year)\<close>: the set is a list here, \<open>has\<close> is membership. The two
  \<open>dateKey\<close> calls throw on an invalid date.
\<close>

definition polishHolidays :: "int \<Rightarrow> int \<Rightarrow> js_error + string list" where
  "polishHolidays tz year =
     (let fixed = map (\<lambda>md. show_int year @ md)
                    [''-01-01'', ''-01-06'', ''-05-01'', ''-05-03'', ''-08-15'',
                     ''-11-01'', ''-11-11'', ''-12-24'', ''-12-25'', ''-12-26''];
          easterSunday = computeEaster tz year;
          easterMonday = setDate tz easterSunday (js_add (getDate tz easterSunday) (Fin 1));
          corpusChristi = setDate tz easterSunday (js_add (getDate tz easterSunday) (Fin 60))
      in (case dateKey easterMonday of
            Inl err \<Rightarrow> Inl err
          | Inr k1 \<Rightarrow>
              (case dateKey corpusChristi of
                 Inl err \<Rightarrow> Inl err
               | Inr k2 \<Rightarrow> Inr (fixed @ [k1, k2]))))"

text \<open>The loop of \<open>workingDaysInMonth\<close> from \<open>day\<close> on, \<open>daysInMonth\<close> being a whole number.\<close>

function working_days_from ::
  "int \<Rightarrow> int \<Rightarrow> int \<Rightarrow> string list \<Rightarrow> int \<Rightarrow> int \<Rightarrow> nat \<Rightarrow> js_error + nat"
where
  "working_days_from tz year month holidays daysInMonth day count =
     (if day \<le> daysInMonth then
        (let d = new_Date tz year (month - 1) day;
             dow = getDay tz d
         in (case dateKey d of
               Inl err \<Rightarrow> Inl err
             | Inr key \<Rightarrow>
                 if js_eq dow (Fin 0) \<or> js_eq dow (Fin 6)
                 then working_days_from tz year month holidays daysInMonth (day + 1) count
                 else if key \<in> set holidays
                 then working_days_from tz year month holidays daysInMonth (day + 1) count
                 else working_days_from tz year month holidays daysInMonth (day + 1) (count + 1)))
      else Inr count)"
  by pat_completeness auto
termination
  by (relation "measure (\<lambda>(tz, year, month, holidays, daysInMonth, day, count).
                   nat (daysInMonth + 1 - day))") auto

declare working_days_from.simps [simp del]

text \<open>
  \<open>workingDaysInMonth(year, month)\<close>. When \<open>daysInMonth\<close> is NaN the loop condition
  is false at once.
\<close>

definition workingDaysInMonth :: "int \<Rightarrow> int \<Rightarrow> int \<Rightarrow> js_error + nat" where
  "workingDaysInMonth tz year month =
     (case polishHolidays tz year of
        Inl err \<Rightarrow> Inl err
      | Inr holidays \<Rightarrow>
          (case getDate tz (new_Date tz year month 0) of
             Fin q \<Rightarrow> working_days_from tz year month holidays \<lfloor>q\<rfloor> 1 0
           | _ \<Rightarrow> Inr 0))"

section \<open>The ledger\<close>

text \<open>
  The entries are the pairs of a date string and the hours stored under it, in the
  order of the object's keys.
\<close>

type_synonym entries = "(string \<times> jsval) list"

text \<open>
  \<open>sumEntriesForMonth(refDate)\<close> of \<^verbatim>\<open>app.js\<close> over the entries of the state. The
  reference date is a string or is not there; \<open>None\<close> as the result is \<open>null\<close>.
\<close>

definition sumEntriesForMonth ::
  "(string \<Rightarrow> int option) \<Rightarrow> int \<Rightarrow> entries \<Rightarrow> string option \<Rightarrow> jsnum option"
where
  "sumEntriesForMonth dateParse tz ents refDate =
     (case refDate of
        None \<Rightarrow> None
      | Some ref \<Rightarrow>
          if ref = [] then None
          else
            (let target = new_Date_str dateParse ref
             in if isNaN (getTime target) then None
                else
                  (let targetYear = getFullYear tz target;
                       targetMonth = getMonth tz target;
                       total =
                         foldl
                           (\<lambda>total (date, hrs).
                              let d = new_Date_str dateParse date
                              in if \<not> isNaN (getTime d) \<and> js_eq (getFullYear tz d) targetYear
                                    \<and> js_eq (getMonth tz d) targetMonth
                                 then js_add total
                                        (if truthy (JNum (Number hrs)) then Number hrs else Fin 0)
                                 else total)
                           (Fin 0) ents
                   in Some (round2 (JNum total)))))"

text \<open>The test of \<^verbatim>\<open>/^\d{4}-\d{2}$/\<close>.\<close>

definition month_pattern :: "string \<Rightarrow> bool" where
  "month_pattern s =
     (length s = 7 \<and> list_all is_digit (take 4 s) \<and> s ! 4 = CHR ''-''
      \<and> list_all is_digit (drop 5 s))"

text \<open>
  The handler of \<open>DELETE /api/month\<close> of \<^verbatim>\<open>server.js\<close>: the status of the response
  and the entries in the store afterwards. The parameter is a string or is not there.
\<close>

definition clearMonth ::
  "(string \<Rightarrow> int option) \<Rightarrow> int \<Rightarrow> string option \<Rightarrow> entries \<Rightarrow> nat \<times> entries"
where
  "clearMonth dateParse tz month ents =
     (case month of
        None \<Rightarrow> (400, ents)
      | Some mo \<Rightarrow>
          if mo = [] \<or> \<not> month_pattern mo then (400, ents)
          else
            (case map (\<lambda>p. Number (JStr p)) (split_on CHR ''-'' mo) of
               year # mon # _ \<Rightarrow>
                 (200,
                  filter
                    (\<lambda>(date, hrs).
                       let d = new_Date_str dateParse date
                       in \<not> (js_eq (getFullYear tz d) year
                              \<and> js_eq (js_add (getMonth tz d) (Fin 1)) mon))
                    ents)
             | _ \<Rightarrow> (200, ents)))"

subsection \<open>Date strings\<close>

text \<open>
  The one form of date string the theorems below evaluate: \<open>YYYY-MM-DD\<close>, the date-only
  form of the language's date format, which \<open>Date.parse\<close> reads as midnight UTC of
  that day. The month is from 01 to 12 and the day from 01 to 31; as Node reads it, a
  day past the end of its month runs over into the next month. What \<open>Date.parse\<close>
  makes of other strings is left to the engine, and this parser reads none of them.
\<close>

definition parseIsoDateOnly :: "string \<Rightarrow> int option" where
  "parseIsoDateOnly s =
     (if length s = 10 \<and> list_all is_digit (take 4 s) \<and> s ! 4 = CHR ''-''
         \<and> list_all is_digit (take 2 (drop 5 s)) \<and> s ! 7 = CHR ''-''
         \<and> list_all is_digit (drop 8 s)
      then (let y = radix_val 10 (take 4 s);
                m = radix_val 10 (take 2 (drop 5 s));
                d = radix_val 10 (drop 8 s)
            in if 1 \<le> m \<and> m \<le> 12 \<and> 1 \<le> d \<and> d \<le> 31
               then Some ((days_from_civil y m 1 + d - 1) * msPerDay)
               else None)
      else None)"

section \<open>The invoice normaliser\<close>

text \<open>
  \<open>normalizeInvoice\<close> of \<^verbatim>\<open>server.js\<close>: the dates and the money fields of the
  record. The request body and the profile carry the fields these computations read; a
  text field is a string or is not there (\<open>None\<close>). The clock is a parameter \<open>now\<close>, a
  valid time value that every reading of the clock within one call returns. The
  identifiers, the parties, the item, the place and the currency of the record are
  copies of text fields and are left out: for a body of text and number fields
  nothing in them throws.
\<close>

record extra_raw =
  x_desc :: "string option"
  x_net :: jsval

record invoice_body =
  b_issueDate :: "string option"
  b_saleDate :: "string option"
  b_dueDays :: jsval
  b_dueDate :: "string option"
  b_hours :: jsval
  b_rate :: jsval
  b_vatPercent :: jsval
  b_manualNet :: jsval
  b_extra :: "extra_raw option"

record profile_defaults =
  d_hourlyRate :: jsval
  d_vatPercent :: jsval
  d_dueDays :: jsval

record profile =
  p_defaults :: "profile_defaults option"

record extra_line =
  desc :: string
  line_net :: jsnum

record invoice =
  issueDate :: string
  saleDate :: string
  dueDate :: string
  dueDays :: jsval
  vatPercent :: jsval
  rate :: jsval
  hours :: jsnum
  net :: jsnum
  totalNet :: jsnum
  vatAmount :: jsnum
  gross :: jsnum
  extra :: "extra_line option"
  manualNet :: "jsnum option"
  month :: jsnum
  year :: jsnum

text \<open>\<open>DEFAULT_DATA.profile.defaults\<close>.\<close>

definition DEFAULT_defaults :: profile_defaults where
  "DEFAULT_defaults =
     \<lparr>d_hourlyRate = JNull, d_vatPercent = JNum (Fin 23), d_dueDays = JNum (Fin 14)\<rparr>"

text \<open>\<open>cleanText\<close>: \<open>(value ?? '').toString().trim()\<close> on a text field.\<close>

definition cleanText :: "string option \<Rightarrow> string" where
  "cleanText v = trim (case v of None \<Rightarrow> [] | Some s \<Rightarrow> s)"

text \<open>\<open>a || b\<close> on strings: the empty string is the falsy one.\<close>

definition str_or :: "string \<Rightarrow> string \<Rightarrow> string" where
  "str_or a b = (if a \<noteq> [] then a else b)"

text \<open>\<open>body.extra?.net\<close> and \<open>body.extra?.desc\<close>.\<close>

definition extra_net_of :: "extra_raw option \<Rightarrow> jsval" where
  "extra_net_of e = (case e of None \<Rightarrow> JUndefined | Some x \<Rightarrow> x_net x)"

definition extra_desc_of :: "extra_raw option \<Rightarrow> string option" where
  "extra_desc_of e = (case e of None \<Rightarrow> None | Some x \<Rightarrow> x_desc x)"

text \<open>
  \<open>computeDueDate(issueDate, dueDays)\<close>. \<open>Number.isFinite\<close> does not convert its
  argument: a \<open>dueDays\<close> that is no number counts as 0 days. The last line throws when
  the date has left the range of \<open>Date\<close>.
\<close>

definition computeDueDate ::
  "(string \<Rightarrow> int option) \<Rightarrow> int \<Rightarrow> int \<Rightarrow> string \<Rightarrow> jsval \<Rightarrow> js_error + string"
where
  "computeDueDate dateParse tz now issueDate' dueDays' =
     (let base0 = (if issueDate' \<noteq> [] then new_Date_str dateParse issueDate'
                   else TimeClip now);
          base = (if isNaN (getTime base0) then TimeClip now else base0);
          days = (case dueDays' of
                    JNum n \<Rightarrow> if isFinite n then n else Fin 0
                  | _ \<Rightarrow> Fin 0)
      in dateKey (setDate tz base (js_add (getDate tz base) days)))"

text \<open>
  \<open>normalizeInvoice(body, profile)\<close>. The due date is computed only when the body
  gives none, and the function throws what \<open>computeDueDate\<close> throws. The fallback of
  \<open>toNumber\<close> for \<open>manualNet\<close> is a number, so its result is one, and \<open>Number\<close> reads
  it off.
\<close>

definition normalizeInvoice ::
  "(string \<Rightarrow> int option) \<Rightarrow> int \<Rightarrow> int \<Rightarrow> invoice_body \<Rightarrow> profile option
     \<Rightarrow> js_error + invoice"
where
  "normalizeInvoice dateParse tz now body prof =
     (let dflt = (case prof of
                    None \<Rightarrow> DEFAULT_defaults
                  | Some p \<Rightarrow> (case p_defaults p of None \<Rightarrow> DEFAULT_defaults | Some d \<Rightarrow> d));
          issueDate' = str_or (cleanText (b_issueDate body)) (iso_date10 now);
          saleDate' = str_or (cleanText (b_saleDate body)) issueDate';
          dueDays' = (if b_dueDays body \<noteq> JUndefined
                      then toNumber (b_dueDays body) (d_dueDays dflt)
                      else d_dueDays dflt)
      in (case (if cleanText (b_dueDate body) \<noteq> [] then Inr (cleanText (b_dueDate body))
                else computeDueDate dateParse tz now issueDate' dueDays') of
            Inl err \<Rightarrow> Inl err
          | Inr dueDate' \<Rightarrow>
              (let vatPercent' = (if b_vatPercent body \<noteq> JUndefined
                                  then toNumber (b_vatPercent body) (d_vatPercent dflt)
                                  else d_vatPercent dflt);
                   hoursVal = parseHoursInput (b_hours body);
                   hours' = (case hoursVal of None \<Rightarrow> Fin 0 | Some h \<Rightarrow> h);
                   rate' = toNumber (b_rate body) (nullish (d_hourlyRate dflt) (JNum (Fin 0)));
                   baseNet = round2 (JNum (js_mul hours' (Number rate')));
                   extraNet = round2 (toNumber (extra_net_of (b_extra body)) (JNum (Fin 0)));
                   manualNet' = (if b_manualNet body = JNum (Fin 0) \<or> truthy (b_manualNet body)
                                 then Some (Number (toNumber (b_manualNet body) (JNum baseNet)))
                                 else None);
                   netValue = (case manualNet' of Some m \<Rightarrow> round2 (JNum m) | None \<Rightarrow> baseNet);
                   totalNet' = (case manualNet' of
                                  Some m \<Rightarrow> round2 (JNum (js_add m extraNet))
                                | None \<Rightarrow> round2 (JNum (js_add baseNet extraNet)));
                   vatAmount' =
                     round2 (JNum (js_mul totalNet' (js_div (Number vatPercent') (Fin 100))));
                   gross' = round2 (JNum (js_add totalNet' vatAmount'));
                   sale = new_Date_str dateParse (str_or saleDate' issueDate')
               in Inr \<lparr>issueDate = issueDate',
                       saleDate = saleDate',
                       dueDate = dueDate',
                       dueDays = dueDays',
                       vatPercent = vatPercent',
                       rate = rate',
                       hours = hours',
                       net = netValue,
                       totalNet = totalNet',
                       vatAmount = vatAmount',
                       gross = gross',
                       extra = (if truthy (JNum extraNet)
                                   \<and> cleanText (extra_desc_of (b_extra body)) \<noteq> []
                                then Some \<lparr>desc = cleanText (extra_desc_of (b_extra body)),
                                           line_net = extraNet\<rparr>
                                else None),
                       manualNet = manualNet',
                       month = js_add (getMonth tz sale) (Fin 1),
                       year = getFullYear tz sale\<rparr>)))"

text \<open>
  The totals as the specification derives them from the stored fields of a record:
  \<open>totalNet = round2((manualNet ?? round2(hours * rate)) + (extra?.net ?? 0))\<close>,
  \<open>vatAmount = round2(totalNet * vatPercent / 100)\<close>, \<open>gross = round2(totalNet + vatAmount)\<close>.
\<close>

definition spec_totalNet :: "invoice \<Rightarrow> jsnum" where
  "spec_totalNet iv =
     round2 (JNum (js_add
       (case manualNet iv of
          Some m \<Rightarrow> m
        | None \<Rightarrow> round2 (JNum (js_mul (hours iv) (Number (rate iv)))))
       (case extra iv of Some e \<Rightarrow> line_net e | None \<Rightarrow> Fin 0)))"

definition spec_vatAmount :: "invoice \<Rightarrow> jsnum" where
  "spec_vatAmount iv =
     round2 (JNum (js_mul (spec_totalNet iv) (js_div (Number (vatPercent iv)) (Fin 100))))"

definition spec_gross :: "invoice \<Rightarrow> jsnum" where
  "spec_gross iv = round2 (JNum (js_add (spec_totalNet iv) (spec_vatAmount iv)))"

section \<open>Rounding\<close>

text \<open>The nearest binary64 value is a finite value or an infinity, never NaN.\<close>

lemma double_of_not_NaN: "double_of q \<noteq> NaN"
  by (simp add: double_of_def Let_def)


lemma round2_zero: "round2 (JNum (Fin 0)) = Fin 0"
  by code_simp




text \<open>\<open>round2\<close> of a finite number, step by step.\<close>

lemma round2_fin:
  "round2 (JNum (Fin x)) = js_div (Math_round (js_mul (Fin x) (Fin 100))) (Fin 100)"
  by (cases "x = 0") (simp_all add: round2_def truthy_def Number_def)

lemma js_div_100: "js_div (Fin y) (Fin 100) = double_of (y / 100)"
  by (simp add: js_div_def)

lemma js_div_inf_100: "js_div PInf (Fin 100) = PInf \<and> js_div NInf (Fin 100) = NInf"
  by (simp add: js_div_def js_sign_def signed_inf_def)


text \<open>
  C3, as the code has it. \<open>round2(x)\<close> of a finite \<open>x\<close> is
  \<open>Math.round(x * 100) / 100\<close> in binary64 arithmetic. The product \<open>x * 100\<close> is
  rounded to a Number \<open>y\<close>; \<open>k\<close> is the integer nearest to \<open>y\<close>, an exact tie going to
  the larger integer, towards plus infinity whatever the sign
  (\<open>y - 1/2 < k \<le> y + 1/2\<close>); the result is the Number nearest to \<open>k / 100\<close>. A
  product that overflows gives the infinity of its sign. Where the product is exact,
  \<open>k / 100\<close> is the multiple of 0.01 nearest to \<open>x\<close>, ties going up.
\<close>

theorem round2_half_up:
  "(case js_mul (Fin x) (Fin 100) of
      Fin y \<Rightarrow>
        (\<exists>k::int. y - 1 / 2 < of_int k \<and> of_int k \<le> y + 1 / 2
           \<and> round2 (JNum (Fin x)) = double_of (of_int k / 100))
    | PInf \<Rightarrow> round2 (JNum (Fin x)) = PInf
    | NInf \<Rightarrow> round2 (JNum (Fin x)) = NInf
    | NaN \<Rightarrow> False)
   \<and> (js_mul (Fin x) (Fin 100) = Fin (x * 100) \<longrightarrow>
        (\<exists>k::int. x - 1 / 200 < of_int k / 100 \<and> of_int k / 100 \<le> x + 1 / 200
           \<and> round2 (JNum (Fin x)) = double_of (of_int k / 100)))"
proof -
  have near: "\<exists>k::int. y - 1 / 2 < of_int k \<and> of_int k \<le> y + 1 / 2
                \<and> js_div (Math_round (Fin y)) (Fin 100) = double_of (of_int k / 100)"
    for y :: rat
  proof -
    have "y - 1 / 2 < of_int \<lfloor>y + 1 / 2\<rfloor>" by linarith
    moreover have "of_int \<lfloor>y + 1 / 2\<rfloor> \<le> y + 1 / 2" by linarith
    moreover have "js_div (Math_round (Fin y)) (Fin 100)
                     = double_of (of_int \<lfloor>y + 1 / 2\<rfloor> / 100)"
      by (simp add: Math_round_def js_div_100)
    ultimately show ?thesis by blast
  qed
  have first: "case js_mul (Fin x) (Fin 100) of
      Fin y \<Rightarrow>
        (\<exists>k::int. y - 1 / 2 < of_int k \<and> of_int k \<le> y + 1 / 2
           \<and> round2 (JNum (Fin x)) = double_of (of_int k / 100))
    | PInf \<Rightarrow> round2 (JNum (Fin x)) = PInf
    | NInf \<Rightarrow> round2 (JNum (Fin x)) = NInf
    | NaN \<Rightarrow> False"
  proof (cases "js_mul (Fin x) (Fin 100)")
    case (Fin y)
    then show ?thesis using near [of y] by (simp add: round2_fin)
  next
    case PInf
    then show ?thesis by (simp add: round2_fin Math_round_def js_div_inf_100)
  next
    case NInf
    then show ?thesis by (simp add: round2_fin Math_round_def js_div_inf_100)
  next
    case NaN
    then show ?thesis by (simp add: js_mul_def double_of_not_NaN)
  qed
  have second: "\<exists>k::int. x - 1 / 200 < of_int k / 100 \<and> of_int k / 100 \<le> x + 1 / 200
           \<and> round2 (JNum (Fin x)) = double_of (of_int k / 100)"
    if exact: "js_mul (Fin x) (Fin 100) = Fin (x * 100)"
  proof -
    from near [of "x * 100"] obtain k :: int
      where k: "x * 100 - 1 / 2 < of_int k" "of_int k \<le> x * 100 + 1 / 2"
        "js_div (Math_round (Fin (x * 100))) (Fin 100) = double_of (of_int k / 100)"
      by blast
    have "x - 1 / 200 < of_int k / 100" using k(1) by (simp add: field_simps)
    moreover have "of_int k / 100 \<le> x + 1 / 200" using k(2) by (simp add: field_simps)
    moreover have "round2 (JNum (Fin x)) = double_of (of_int k / 100)"
      using k(3) exact by (simp add: round2_fin)
    ultimately show ?thesis by blast
  qed
  from first second show ?thesis by blast
qed

theorem round2_half_up_witness:
  "js_mul (Fin (- 1 / 8)) (Fin 100) = Fin (- 1 / 8 * 100)
   \<and> - 1 / 8 - 1 / 200 < rat_of_int (- 12) / 100
   \<and> rat_of_int (- 12) / 100 \<le> - 1 / 8 + 1 / 200
   \<and> round2 (JNum (Fin (- 1 / 8))) = double_of (rat_of_int (- 12) / 100)"
proof -
  have e: "js_mul (Fin (- 1 / 8)) (Fin 100) = Fin (- 1 / 8 * 100)"
    by code_simp
  have r: "round2 (JNum (Fin (- 1 / 8))) = double_of (rat_of_int (- 12) / 100)"
    by code_simp
  from round2_half_up [of "- 1 / 8"] e
  have "\<exists>k::int. - 1 / 8 - 1 / 200 < rat_of_int k / 100
          \<and> rat_of_int k / 100 \<le> - 1 / 8 + 1 / 200
          \<and> round2 (JNum (Fin (- 1 / 8))) = double_of (rat_of_int k / 100)"
    by blast
  with e r show ?thesis by simp
qed

text \<open>
  C3 as stated fails: the negative tie -0.125 is rounded to -0.12, not away from zero
  to -0.13.
\<close>

theorem round2_negative_tie:
  "round2 (JNum (Fin (- 1 / 8))) = double_of (- 12 / 100)
   \<and> round2 (JNum (Fin (- 1 / 8))) \<noteq> double_of (- 13 / 100)"
  by code_simp

text \<open>
  The positive tie goes up as well. Where the product is not exact the result can be
  the farther multiple of 0.01: the Number 2.675 lies below 2.675 and gives 2.68, the
  Number 1.005 lies below 1.005 and gives 1. A product that overflows gives infinity.
\<close>

lemma round2_examples:
  "round2 (JNum (Fin (1 / 8))) = double_of (13 / 100)
   \<and> round2 (JNum (StringToNumber ''2.675'')) = StringToNumber ''2.68''
   \<and> round2 (JNum (StringToNumber ''1.005'')) = Fin 1
   \<and> round2 (JNum (StringToNumber ''8.345'')) = StringToNumber ''8.35''"
  by code_simp

lemma round2_overflow: "round2 (JNum (StringToNumber ''1e308'')) = PInf"
  by code_simp

subsection \<open>The rounding error, and rounding twice\<close>















section \<open>The hours parser\<close>

text \<open>A string with the separator in it splits into at least two parts.\<close>

lemma split_on_colon_parts:
  "c \<in> set s \<Longrightarrow> \<exists>p0 p1 rest. split_on c s = p0 # p1 # rest"
proof (induction s)
  case Nil
  then show ?case by simp
next
  case (Cons x xs)
  show ?case
  proof (cases "x = c")
    case True
    then show ?thesis by (cases xs) (auto split: list.splits)
  next
    case False
    with Cons.prems have "c \<in> set xs" by simp
    from Cons.IH [OF this] obtain p0 p1 rest where "split_on c xs = p0 # p1 # rest"
      by blast
    with False show ?thesis by simp
  qed
qed

lemma colon_hours_parts:
  "split_on CHR '':'' t = p0 # p1 # rest \<Longrightarrow>
   colon_hours t =
     (case (StringToNumber p0, StringToNumber p1) of
        (Fin a, Fin b) \<Rightarrow>
          if 0 \<le> a \<and> 0 \<le> b \<and> b < 60
          then Some (round2 (JNum (js_add (Fin a) (js_div (Fin b) (Fin 60))))) else None
      | _ \<Rightarrow> None)"
  by (simp add: colon_hours_def Number_def isFinite_def js_ge_def js_lt_def isNaN_def
      split: jsnum.splits)

text \<open>
  C5, as the code has it. For a string with a colon (after trimming) both parsers
  take the first two of the parts between colons, convert each with \<open>Number\<close>, and
  return a value exactly when both are finite, the hours are not negative and the
  minutes are from 0 up to but not 60; the value is \<open>round2(H + MM / 60)\<close>, the
  quotient and the sum being Numbers. The parts
  need not be whole numbers, an empty part is 0, and parts after the second are
  ignored.
\<close>

theorem colon_hours_parsers:
  assumes "str_includes (trim s) CHR '':''"
  shows "\<exists>p0 p1 rest.
           split_on CHR '':'' (trim s) = p0 # p1 # rest
           \<and> parseHoursInput (JStr s) =
               (case (StringToNumber p0, StringToNumber p1) of
                  (Fin a, Fin b) \<Rightarrow>
                    if 0 \<le> a \<and> 0 \<le> b \<and> b < 60
                    then Some (round2 (JNum (js_add (Fin a) (js_div (Fin b) (Fin 60)))))
                    else None
                | _ \<Rightarrow> None)
           \<and> parseHours (JStr s) = parseHoursInput (JStr s)"
proof -
  from assms have "CHR '':'' \<in> set (trim s)"
    by (simp add: str_includes_def)
  then obtain p0 p1 rest where parts: "split_on CHR '':'' (trim s) = p0 # p1 # rest"
    using split_on_colon_parts by blast
  have "parseHoursInput (JStr s) = colon_hours (trim s)"
    using assms by (simp add: parseHoursInput_def Let_def)
  moreover have "parseHours (JStr s) = colon_hours (trim s)"
    using assms by (simp add: parseHours_def Let_def)
  ultimately show ?thesis
    using parts colon_hours_parts [OF parts] by auto
qed

theorem colon_hours_parsers_witness:
  "str_includes (trim ''2:30'') CHR '':''
   \<and> split_on CHR '':'' (trim ''2:30'') = [''2'', ''30'']
   \<and> parseHours (JStr ''2:30'') = Some (Fin (5 / 2))
   \<and> parseHoursInput (JStr ''2:30'') = Some (Fin (5 / 2))"
proof -
  have h: "str_includes (trim ''2:30'') CHR '':''"
    by code_simp
  have p: "split_on CHR '':'' (trim ''2:30'') = [''2'', ''30'']"
    by code_simp
  have v: "parseHoursInput (JStr ''2:30'') = Some (Fin (5 / 2))"
    by code_simp
  from colon_hours_parsers [OF h]
  have "parseHours (JStr ''2:30'') = parseHoursInput (JStr ''2:30'')"
    by blast
  with h p v show ?thesis by simp
qed

text \<open>
  C5 as stated fails: the hours part 1.5 is not a whole number, and \<open>1.5:30\<close> is
  parsed to 2 by both parsers, not rejected.
\<close>

theorem parseHours_fractional_part:
  "parseHours (JStr ''1.5:30'') = Some (Fin 2)
   \<and> parseHoursInput (JStr ''1.5:30'') = Some (Fin 2)
   \<and> StringToNumber ''1.5'' = Fin (3 / 2)"
  by code_simp

lemma parseHours_colon_examples:
  "parseHours (JStr ''2:60'') = None \<and> parseHoursInput (JStr ''2:60'') = None
   \<and> parseHours (JStr ''-1:30'') = None \<and> parseHours (JStr ''2:x'') = None
   \<and> parseHours (JStr '':30'') = Some (Fin (1 / 2))
   \<and> parseHours (JStr ''1:30:59'') = Some (Fin (3 / 2))
   \<and> parseHours (JStr ''1:20'') = Some (StringToNumber ''1.33'')"
  by code_simp

text \<open>
  Without a colon the parser of \<^verbatim>\<open>app.js\<close> returns \<open>round2\<close> of the number
  \<open>parseFloat\<close> reads, and \<open>null\<close> when that is not finite; the parser of
  \<^verbatim>\<open>server.js\<close> always returns a number, \<open>round2\<close> of what \<open>Number\<close> reads or 0
  when that is not finite.
\<close>

lemma parseHours_decimal:
  "\<not> str_includes (trim s) CHR '':'' \<Longrightarrow>
   parseHours (JStr s) =
     (case parseFloat (JStr (trim s)) of Fin x \<Rightarrow> Some (round2 (JNum (Fin x))) | _ \<Rightarrow> None)"
  by (simp add: parseHours_def parseNumber_def Let_def isFinite_def split: jsnum.splits)

lemma parseHoursInput_decimal:
  "\<not> str_includes (trim s) CHR '':'' \<Longrightarrow>
   parseHoursInput (JStr s) =
     Some (case StringToNumber (trim s) of Fin x \<Rightarrow> round2 (JNum (Fin x)) | _ \<Rightarrow> Fin 0)"
  by (simp add: parseHoursInput_def toNumber_def Number_def Let_def isFinite_def round2_zero
      split: jsnum.splits)

lemma parseHours_decimal_examples:
  "parseHours (JStr ''2.5'') = Some (Fin (5 / 2))
   \<and> parseHoursInput (JStr ''2.5'') = Some (Fin (5 / 2))
   \<and> parseHours (JStr ''-1'') = Some (Fin (- 1))
   \<and> parseHoursInput (JStr ''-1'') = Some (Fin (- 1))
   \<and> parseHours (JStr ''Infinity'') = None"
  by code_simp

text \<open>
  C4, where the code departs from it. For a string that is no number the parser of
  \<^verbatim>\<open>server.js\<close> returns 0, a value; the parser of \<^verbatim>\<open>app.js\<close> returns
  \<open>null\<close>, as the claim has it.
\<close>

theorem parseHoursInput_non_numeric:
  "parseHoursInput (JStr ''abc'') = Some (Fin 0) \<and> parseHours (JStr ''abc'') = None"
  by code_simp

section \<open>The holiday calendar in a time zone\<close>

lemma computeEaster_2024:
  "dateKey (computeEaster 0 2024) = Inr ''2024-03-31''
   \<and> getFullYear 60 (computeEaster 60 2024) = Fin 2024
   \<and> getMonth 60 (computeEaster 60 2024) = Fin 2
   \<and> getDate 60 (computeEaster 60 2024) = Fin 31"
  by code_simp

text \<open>In a host on UTC the holidays of 2024 are the twelve dates of the specification.\<close>

lemma polishHolidays_utc_2024:
  "polishHolidays 0 2024 =
     Inr [''2024-01-01'', ''2024-01-06'', ''2024-05-01'', ''2024-05-03'', ''2024-08-15'',
          ''2024-11-01'', ''2024-11-11'', ''2024-12-24'', ''2024-12-25'', ''2024-12-26'',
          ''2024-04-01'', ''2024-05-30'']"
  by code_simp

lemma polishHolidays_west_2024:
  "polishHolidays (- 300) 2024 = polishHolidays 0 2024"
  by code_simp

text \<open>
  C6, where the code departs from it. The movable holidays are built as local
  midnights and keyed by their UTC date. In a host whose local time is ahead of UTC
  (here UTC+01:00) local midnight is still the day before in UTC, so the keys of 2024
  are 2024-03-31 (Easter Sunday) and 2024-05-29 in place of Easter Monday 2024-04-01
  and Corpus Christi 2024-05-30.
\<close>

theorem polishHolidays_ahead_of_utc:
  "polishHolidays 60 2024 =
     Inr [''2024-01-01'', ''2024-01-06'', ''2024-05-01'', ''2024-05-03'', ''2024-08-15'',
          ''2024-11-01'', ''2024-11-11'', ''2024-12-24'', ''2024-12-25'', ''2024-12-26'',
          ''2024-03-31'', ''2024-05-29'']"
  by code_simp

text \<open>
  In a host on UTC, December 2024 has 19 working days (22 weekdays less the 24th,
  25th and 26th) and November 2024 has 19 (21 weekdays less the 1st and the 11th).
\<close>

lemma workingDaysInMonth_utc_2024:
  "workingDaysInMonth 0 2024 12 = Inr 19 \<and> workingDaysInMonth 0 2024 11 = Inr 19"
  by code_simp

text \<open>
  C7, where the code departs from it. The days of the month are local midnights, keyed
  by their UTC date: in a host at UTC+01:00 the key of a day is the date of the day
  before, so a fixed holiday takes out the day after it. November 2024 has 21
  weekdays; the holidays are Friday the 1st and Monday the 11th, which leaves 19. The
  code takes out Tuesday the 12th alone (the 2nd, keyed as the 1st, is a Saturday) and
  returns 20.
\<close>

theorem workingDaysInMonth_ahead_of_utc:
  "workingDaysInMonth 60 2024 11 = Inr 20"
  by code_simp

lemma november_2024_keys_ahead_of_utc:
  "dateKey (new_Date 60 2024 10 1) = Inr ''2024-10-31''
   \<and> dateKey (new_Date 60 2024 10 11) = Inr ''2024-11-10''
   \<and> dateKey (new_Date 60 2024 10 12) = Inr ''2024-11-11''
   \<and> getDay 60 (new_Date 60 2024 10 1) = Fin 5
   \<and> getDay 60 (new_Date 60 2024 10 11) = Fin 1
   \<and> getDay 60 (new_Date 60 2024 10 12) = Fin 2"
  by code_simp

section \<open>The ledger in a time zone\<close>

lemma isNaN_getTime: "isNaN (getTime d) = (d = None)"
  by (cases d) (simp_all add: isNaN_def getTime_def)

text \<open>
  \<open>sumEntriesForMonth\<close> returns \<open>null\<close> exactly when the reference date is missing,
  empty or not a date.
\<close>

lemma sumEntriesForMonth_None_iff:
  "sumEntriesForMonth dateParse tz ents refDate = None
   \<longleftrightarrow> (case refDate of
          None \<Rightarrow> True
        | Some r \<Rightarrow> r = [] \<or> new_Date_str dateParse r = None)"
  by (simp add: sumEntriesForMonth_def Let_def isNaN_getTime split: option.splits)

lemma sumEntriesForMonth_no_entries:
  "sumEntriesForMonth parseIsoDateOnly tz [] (Some ''2024-03-10'') = Some (Fin 0)"
proof -
  have "new_Date_str parseIsoDateOnly ''2024-03-10'' \<noteq> None"
    by code_simp
  then show ?thesis
    by (simp add: sumEntriesForMonth_def Let_def isNaN_getTime round2_zero)
qed

text \<open>The example of the specification, in a host on UTC and in one ahead of UTC.\<close>

lemma sumEntriesForMonth_utc:
  "sumEntriesForMonth parseIsoDateOnly 0
     [(''2024-03-01'', JNum (Fin 4)), (''2024-03-15'', JNum (Fin (7 / 2))),
      (''2024-04-01'', JNum (Fin 8))]
     (Some ''2024-03-10'') = Some (Fin (15 / 2))
   \<and> sumEntriesForMonth parseIsoDateOnly 60
     [(''2024-03-01'', JNum (Fin 4)), (''2024-03-15'', JNum (Fin (7 / 2))),
      (''2024-04-01'', JNum (Fin 8))]
     (Some ''2024-03-10'') = Some (Fin (15 / 2))
   \<and> sumEntriesForMonth parseIsoDateOnly 0
     [(''2024-03-01'', JNum (Fin 4))] (Some ''soon'') = None"
  by code_simp

text \<open>
  C8, where the code departs from it. A date string \<open>YYYY-MM-DD\<close> is read as midnight
  UTC and its year and month are taken in local time. In a host behind UTC (here
  UTC-05:00) that instant is the evening of the day before, so the first day of a
  month counts for the month before: over the entries of the specification's
  example and the reference date 2024-03-10 the sum is 3.5 + 8 = 11.5 (2024-03-01 is
  left out as February, 2024-04-01 is taken in as March), not 7.5.
\<close>

theorem sumEntriesForMonth_behind_utc:
  "sumEntriesForMonth parseIsoDateOnly (- 300)
     [(''2024-03-01'', JNum (Fin 4)), (''2024-03-15'', JNum (Fin (7 / 2))),
      (''2024-04-01'', JNum (Fin 8))]
     (Some ''2024-03-10'') = Some (Fin (23 / 2))"
  by code_simp

lemma month_behind_utc:
  "getMonth (- 300) (new_Date_str parseIsoDateOnly ''2024-03-01'') = Fin 1
   \<and> getMonth (- 300) (new_Date_str parseIsoDateOnly ''2024-04-01'') = Fin 2
   \<and> getDate (- 300) (new_Date_str parseIsoDateOnly ''2024-04-01'') = Fin 31"
  by code_simp

text \<open>A month parameter that is missing or not of the form \<open>YYYY-MM\<close> is rejected, and
  the entries stay as they are.\<close>

lemma clearMonth_rejects:
  "clearMonth dateParse tz None ents = (400, ents)
   \<and> (\<not> month_pattern mo \<longrightarrow> clearMonth dateParse tz (Some mo) ents = (400, ents))"
  by (simp add: clearMonth_def)

lemma month_pattern_parts:
  assumes "month_pattern mo"
  shows "\<exists>p0 p1 rest. split_on CHR ''-'' mo = p0 # p1 # rest"
proof -
  from assms have "length mo = 7" and "mo ! 4 = CHR ''-''"
    by (simp_all add: month_pattern_def)
  then have "4 < length mo" and "mo ! 4 = CHR ''-''"
    by simp_all
  then have "CHR ''-'' \<in> set mo"
    by (metis nth_mem)
  then show ?thesis by (rule split_on_colon_parts)
qed

text \<open>A month parameter of the form \<open>YYYY-MM\<close> is accepted; what stays is a selection
  of the entries, in their order.\<close>

lemma clearMonth_accepts:
  assumes "month_pattern mo"
  shows "\<exists>keep. clearMonth dateParse tz (Some mo) ents = (200, filter keep ents)"
proof -
  from month_pattern_parts [OF assms] obtain p0 p1 rest
    where "split_on CHR ''-'' mo = p0 # p1 # rest" by blast
  moreover from assms have "mo \<noteq> []"
    by (auto simp add: month_pattern_def)
  ultimately show ?thesis
    using assms by (auto simp add: clearMonth_def)
qed

text \<open>The example of the specification in a host on UTC.\<close>

lemma clearMonth_utc:
  "clearMonth parseIsoDateOnly 0 (Some ''2024-03'')
     [(''2024-03-01'', JNum (Fin 4)), (''2023-03-05'', JNum (Fin (7 / 2))),
      (''2024-04-01'', JNum (Fin 8))]
   = (200, [(''2023-03-05'', JNum (Fin (7 / 2))), (''2024-04-01'', JNum (Fin 8))])
   \<and> clearMonth parseIsoDateOnly 0 (Some ''2024-3'') [(''2024-03-01'', JNum (Fin 4))]
   = (400, [(''2024-03-01'', JNum (Fin 4))])"
  by code_simp

text \<open>
  C9, where the code departs from it. The handler reads the year and month of an
  entry's date in local time, the date string being midnight UTC. In a host behind
  UTC (here UTC-05:00) clearing 2024-03 leaves the entry of 2024-03-01 in the store
  and removes the entry of 2024-04-01.
\<close>

theorem clearMonth_behind_utc:
  "clearMonth parseIsoDateOnly (- 300) (Some ''2024-03'')
     [(''2024-03-01'', JNum (Fin 4)), (''2023-03-05'', JNum (Fin (7 / 2))),
      (''2024-04-01'', JNum (Fin 8))]
   = (200, [(''2024-03-01'', JNum (Fin 4)), (''2023-03-05'', JNum (Fin (7 / 2)))])"
  by code_simp

section \<open>The invoice normaliser: the money fields\<close>


lemma normalizeInvoice_with_dueDate:
  "cleanText (b_dueDate body) \<noteq> [] \<Longrightarrow>
   \<exists>iv. normalizeInvoice dateParse tz now body prof = Inr iv"
  by (simp add: normalizeInvoice_def Let_def)

text \<open>
  The totals of every record follow the formulas, with the extra-line net taken as
  \<open>round2(toNumber(body.extra?.net, 0))\<close> whether or not the extra line has a
  description: \<open>totalNet\<close> is \<open>round2\<close> of the manual net (when there is one) or the
  base net, plus the extra-line net; \<open>vatAmount\<close> and \<open>gross\<close> follow from it.
\<close>

lemma normalizeInvoice_money:
  assumes "normalizeInvoice dateParse tz now body prof = Inr iv"
  shows "let baseNet = round2 (JNum (js_mul (hours iv) (Number (rate iv))));
             extraNet = round2 (toNumber (extra_net_of (b_extra body)) (JNum (Fin 0)))
         in net iv = (case manualNet iv of Some m \<Rightarrow> round2 (JNum m) | None \<Rightarrow> baseNet)
            \<and> totalNet iv =
                round2 (JNum (js_add (case manualNet iv of Some m \<Rightarrow> m | None \<Rightarrow> baseNet)
                                extraNet))
            \<and> vatAmount iv =
                round2 (JNum (js_mul (totalNet iv) (js_div (Number (vatPercent iv)) (Fin 100))))
            \<and> gross iv = round2 (JNum (js_add (totalNet iv) (vatAmount iv)))"
  using assms
  by (auto simp add: normalizeInvoice_def Let_def split: sum.splits)

lemma normalizeInvoice_hours:
  assumes "normalizeInvoice dateParse tz now body prof = Inr iv"
  shows "hours iv = (case parseHoursInput (b_hours body) of None \<Rightarrow> Fin 0 | Some h \<Rightarrow> h)"
  using assms
  by (auto simp add: normalizeInvoice_def Let_def split: sum.splits)

lemma normalizeInvoice_rate:
  assumes "normalizeInvoice dateParse tz now body (Some \<lparr>p_defaults = Some d\<rparr>) = Inr iv"
  shows "rate iv = toNumber (b_rate body) (nullish (d_hourlyRate d) (JNum (Fin 0)))"
  using assms
  by (auto simp add: normalizeInvoice_def Let_def split: sum.splits)

lemma normalizeInvoice_rate_default:
  assumes "normalizeInvoice dateParse tz now body None = Inr iv"
  shows "rate iv = toNumber (b_rate body) (JNum (Fin 0))"
  using assms
  by (auto simp add: normalizeInvoice_def Let_def DEFAULT_defaults_def nullish_def
      split: sum.splits)

text \<open>The extra line is stored when its net is not zero and it has a description.\<close>

lemma normalizeInvoice_extra:
  assumes "normalizeInvoice dateParse tz now body prof = Inr iv"
  shows "extra iv =
           (if truthy (JNum (round2 (toNumber (extra_net_of (b_extra body)) (JNum (Fin 0)))))
               \<and> cleanText (extra_desc_of (b_extra body)) \<noteq> []
            then Some \<lparr>desc = cleanText (extra_desc_of (b_extra body)),
                       line_net = round2 (toNumber (extra_net_of (b_extra body)) (JNum (Fin 0)))\<rparr>
            else None)"
  using assms
  by (auto simp add: normalizeInvoice_def Let_def split: sum.splits)

text \<open>An override of zero is stored as 0, no override as \<open>null\<close>.\<close>

lemma normalizeInvoice_manualNet_zero:
  "normalizeInvoice dateParse tz now (body\<lparr>b_manualNet := JNum (Fin 0)\<rparr>) prof = Inr iv \<Longrightarrow>
   manualNet iv = Some (Fin 0)"
  by (auto simp add: normalizeInvoice_def Let_def toNumber_def Number_def isFinite_def
      split: sum.splits)

lemma normalizeInvoice_manualNet_absent:
  "normalizeInvoice dateParse tz now (body\<lparr>b_manualNet := JUndefined\<rparr>) prof = Inr iv \<Longrightarrow>
   manualNet iv = None"
  by (auto simp add: normalizeInvoice_def Let_def truthy_def split: sum.splits)

lemma normalizeInvoice_manualNet_finite:
  "truthy (b_manualNet body) \<Longrightarrow> Number (b_manualNet body) = Fin m \<Longrightarrow>
   normalizeInvoice dateParse tz now body prof = Inr iv \<Longrightarrow> manualNet iv = Some (Fin m)"
  by (auto simp add: normalizeInvoice_def Let_def toNumber_def Number_def isFinite_def
      split: sum.splits)

text \<open>
  The example of the specification: 8:00 hours at 50 with 23 percent VAT and no
  override, on 3 November 2024 in a host on UTC.
\<close>

lemma normalizeInvoice_example:
  "normalizeInvoice parseIsoDateOnly 0 1730592000000
     \<lparr>b_issueDate = None, b_saleDate = None, b_dueDays = JUndefined, b_dueDate = None,
      b_hours = JStr ''8:00'', b_rate = JNum (Fin 50), b_vatPercent = JNum (Fin 23),
      b_manualNet = JUndefined, b_extra = None\<rparr> None =
   Inr \<lparr>issueDate = ''2024-11-03'', saleDate = ''2024-11-03'', dueDate = ''2024-11-17'',
        dueDays = JNum (Fin 14), vatPercent = JNum (Fin 23), rate = JNum (Fin 50),
        hours = Fin 8, net = Fin 400, totalNet = Fin 400, vatAmount = Fin 92,
        gross = Fin 492, extra = None, manualNet = None, month = Fin 11, year = Fin 2024\<rparr>"
  by code_simp

text \<open>
  C1, where the code departs from it. An extra line with a net amount and no
  description is not stored (\<open>extra\<close> is \<open>null\<close>), yet its net is added to the totals:
  1 hour at 100 with an extra net of 50 and no description gives \<open>totalNet\<close> 150,
  where the claim's extra-line net is 0 and its \<open>totalNet\<close> 100. (The call is made on
  3 November 2024 in a host on UTC; the money fields do not depend on that.)
\<close>

theorem normalizeInvoice_extra_without_description:
  "normalizeInvoice parseIsoDateOnly 0 1730592000000
     \<lparr>b_issueDate = None, b_saleDate = None, b_dueDays = JUndefined, b_dueDate = None,
      b_hours = JNum (Fin 1), b_rate = JNum (Fin 100), b_vatPercent = JUndefined,
      b_manualNet = JUndefined,
      b_extra = Some \<lparr>x_desc = None, x_net = JNum (Fin 50)\<rparr>\<rparr> None =
   Inr \<lparr>issueDate = ''2024-11-03'', saleDate = ''2024-11-03'', dueDate = ''2024-11-17'',
        dueDays = JNum (Fin 14), vatPercent = JNum (Fin 23), rate = JNum (Fin 100),
        hours = Fin 1, net = Fin 100, totalNet = Fin 150, vatAmount = Fin (69 / 2),
        gross = Fin (369 / 2), extra = None, manualNet = None, month = Fin 11,
        year = Fin 2024\<rparr>"
  by code_simp

text \<open>
  When the extra line is stored, or the extra-line net is zero, the stored totals are
  the ones the specification derives from the stored fields.
\<close>

lemma normalizeInvoice_rederivable:
  assumes "normalizeInvoice dateParse tz now body prof = Inr iv"
    and "extra iv \<noteq> None
         \<or> round2 (toNumber (extra_net_of (b_extra body)) (JNum (Fin 0))) = Fin 0"
  shows "spec_totalNet iv = totalNet iv \<and> spec_vatAmount iv = vatAmount iv
         \<and> spec_gross iv = gross iv"
proof -
  have t: "spec_totalNet iv = totalNet iv"
    using assms(2) normalizeInvoice_extra [OF assms(1)] normalizeInvoice_money [OF assms(1)]
    by (auto simp add: spec_totalNet_def Let_def split: if_splits option.splits)
  have v: "spec_vatAmount iv = vatAmount iv"
    unfolding spec_vatAmount_def t using normalizeInvoice_money [OF assms(1)]
    by (simp add: Let_def)
  have "spec_gross iv = gross iv"
    unfolding spec_gross_def t v using normalizeInvoice_money [OF assms(1)]
    by (simp add: Let_def)
  with t v show ?thesis by simp
qed

text \<open>
  C2, where the code departs from it. For the record of 1 hour at 100 with an extra
  net of 50 and no description, the stored \<open>extra\<close> is \<open>null\<close>, so the stored fields
  give \<open>totalNet\<close> 100, \<open>vatAmount\<close> 23 and \<open>gross\<close> 123, and the record stores 150,
  34.5 and 184.5.
\<close>

theorem normalizeInvoice_totals_not_rederivable:
  "(case normalizeInvoice parseIsoDateOnly 0 1730592000000
           \<lparr>b_issueDate = None, b_saleDate = None, b_dueDays = JUndefined, b_dueDate = None,
            b_hours = JNum (Fin 1), b_rate = JNum (Fin 100), b_vatPercent = JUndefined,
            b_manualNet = JUndefined,
            b_extra = Some \<lparr>x_desc = None, x_net = JNum (Fin 50)\<rparr>\<rparr> None of
      Inl err \<Rightarrow> False
    | Inr iv \<Rightarrow>
        extra iv = None \<and> manualNet iv = None \<and> hours iv = Fin 1
        \<and> rate iv = JNum (Fin 100) \<and> vatPercent iv = JNum (Fin 23)
        \<and> totalNet iv = Fin 150 \<and> spec_totalNet iv = Fin 100
        \<and> vatAmount iv = Fin (69 / 2) \<and> spec_vatAmount iv = Fin 23
        \<and> gross iv = Fin (369 / 2) \<and> spec_gross iv = Fin 123)"
  by code_simp

subsection \<open>An override that does not parse\<close>

lemma toNumber_num: "\<exists>n. toNumber v (JNum f) = JNum n"
  by (simp add: toNumber_def Let_def)




end
